theory Spec2Isabelle
  imports Main "HOL-Library.AList"
begin

section \<open>Symbols\<close>

text \<open>
  \<^verbatim>\<open>class Symbol\<close> has the attributes \<^verbatim>\<open>name\<close> and \<^verbatim>\<open>type\<close>. Its two subclasses are
  \<^verbatim>\<open>BuiltinTypeSymbol(name)\<close>, whose \<^verbatim>\<open>type\<close> stays \<^verbatim>\<open>None\<close>, and \<^verbatim>\<open>VarSymbol(name, type)\<close>,
  whose \<^verbatim>\<open>type\<close> is whatever the caller passes: in \<^verbatim>\<open>visit_VarDecl\<close> the result of a
  lookup, that is a symbol or \<^verbatim>\<open>None\<close>.
\<close>

datatype Symbol =
  BuiltinTypeSymbol string
| VarSymbol string "Symbol option"

fun symbol_name :: "Symbol \<Rightarrow> string" where
  "symbol_name (BuiltinTypeSymbol n) = n"
| "symbol_name (VarSymbol n t) = n"

fun symbol_type :: "Symbol \<Rightarrow> Symbol option" where
  "symbol_type (BuiltinTypeSymbol n) = None"
| "symbol_type (VarSymbol n t) = t"

section \<open>The symbol table\<close>

text \<open>
  \<^verbatim>\<open>self._symbols\<close> is an \<^verbatim>\<open>OrderedDict\<close>: an association list in insertion order.
  Assigning to a key that is present replaces the value in place, assigning to a new key
  appends the entry; this is \<^const>\<open>AList.update\<close>. \<^verbatim>\<open>get\<close> is \<^const>\<open>map_of\<close>.
\<close>

record SymbolTable =
  symbols :: "(string \<times> Symbol) list"

text \<open>\<^verbatim>\<open>define\<close>: \<^verbatim>\<open>self._symbols[symbol.name] = symbol\<close>. Returns the table after the call
  (\<^verbatim>\<open>define\<close> is a keyword of the proof language, so the constant is \<open>define_symbol\<close>).\<close>

definition define_symbol :: "Symbol \<Rightarrow> SymbolTable \<Rightarrow> SymbolTable" where
  "define_symbol symbol self = self\<lparr>symbols := AList.update (symbol_name symbol) symbol (symbols self)\<rparr>"

text \<open>
  \<^verbatim>\<open>lookup\<close>: \<^verbatim>\<open>symbol = self._symbols.get(name); return symbol\<close>. A method of a mutable
  object: the model returns the value together with the table after the call.
\<close>

definition lookup :: "string \<Rightarrow> SymbolTable \<Rightarrow> Symbol option \<times> SymbolTable" where
  "lookup name self = (map_of (symbols self) name, self)"

definition BUILTINS :: "string list" where
  "BUILTINS = [''INTEGER'', ''REAL'', ''STRING'', ''BOOLEAN'']"

text \<open>\<^verbatim>\<open>_init_builtins\<close>: \<^verbatim>\<open>for builtin in BUILTINS: self.define(BuiltinTypeSymbol(builtin))\<close>.\<close>

fun init_builtins_loop :: "string list \<Rightarrow> SymbolTable \<Rightarrow> SymbolTable" where
  "init_builtins_loop [] self = self"
| "init_builtins_loop (builtin # rest) self =
     init_builtins_loop rest (define_symbol (BuiltinTypeSymbol builtin) self)"

definition init_builtins :: "SymbolTable \<Rightarrow> SymbolTable" where
  "init_builtins self = init_builtins_loop BUILTINS self"

text \<open>\<^verbatim>\<open>SymbolTable.__init__\<close>: an empty \<^verbatim>\<open>OrderedDict\<close>, then \<^verbatim>\<open>_init_builtins\<close>.\<close>

definition SymbolTable_init :: SymbolTable where
  "SymbolTable_init = init_builtins \<lparr>symbols = []\<rparr>"

section \<open>The syntax tree\<close>

text \<open>
  Modelled from the spec: the AST node classes, which the analyzer imports and only reads.
  One constructor per node class that \<^verbatim>\<open>SymbolTableBuilder\<close> has a \<^verbatim>\<open>visit_\<close> method for,
  with the fields those methods read, named as they are read:
  \<^verbatim>\<open>Program.block\<close>; \<^verbatim>\<open>Block.declarations\<close>, \<^verbatim>\<open>Block.compound_statement\<close>;
  \<^verbatim>\<open>Compound.children\<close>; \<^verbatim>\<open>Condition.condition\<close>, \<^verbatim>\<open>.statement\<close>, \<^verbatim>\<open>.otherwise\<close>;
  \<^verbatim>\<open>ForLoop.identifier\<close>, \<^verbatim>\<open>.boundary\<close>, \<^verbatim>\<open>.statement\<close>; \<^verbatim>\<open>Assign.left.value\<close>, \<^verbatim>\<open>Assign.right\<close>;
  \<^verbatim>\<open>VarDecl.var.value\<close>, \<^verbatim>\<open>VarDecl.type.value\<close>; \<^verbatim>\<open>Var.value\<close>; \<^verbatim>\<open>RelOp.left\<close>, \<^verbatim>\<open>.right\<close>;
  \<^verbatim>\<open>BinOp.left\<close>, \<^verbatim>\<open>.right\<close>; \<^verbatim>\<open>UnaryOp.expr\<close>.
  Where a method reads \<^verbatim>\<open>.value\<close> of a child directly (\<^verbatim>\<open>node.left.value\<close>,
  \<^verbatim>\<open>node.var.value\<close>, \<^verbatim>\<open>node.type.value\<close>) the constructor holds that string; every child
  that is passed to \<^verbatim>\<open>self.visit\<close> is a node of any class, as in the untyped source.
  Fields that no method of this pass reads (operators, literal values, the name and body
  of a procedure, the arguments of \<^verbatim>\<open>writeln\<close>) are left out.
\<close>

datatype node =
  Program node
| Block "node list" node
| ProcedureDeclaration
| Compound "node list"
| Condition node node node
| ForLoop node node node
| Writeln
| Assign string node
| VarDecl string string
| Type string
| Var string
| RelOp node node
| BinOp node node
| UnaryOp node
| NoOp
| Num
| String
| Boolean

section \<open>Errors and outcomes\<close>

text \<open>
  Both \<^verbatim>\<open>raise\<close> statements of the analyzer raise \<^verbatim>\<open>NameError\<close>; they differ in the message:
  \<^verbatim>\<open>repr(var_name)\<close> for a name that is looked up and not found, and
  \<^verbatim>\<open>"{} declared more than once!".format(repr(var_name))\<close> in \<^verbatim>\<open>visit_VarDecl\<close>.
\<close>

datatype message =
  Repr string
| DeclaredMoreThanOnce string

datatype error = NameError message

text \<open>
  A visit either returns (\<open>Inr ()\<close>) or raises (\<open>Inl\<close>); in both cases the symbol table
  of the builder is left in some state, the second component.
\<close>

type_synonym outcome = "(error + unit) \<times> SymbolTable"

section \<open>The analyzer\<close>

text \<open>
  \<^verbatim>\<open>SymbolTableBuilder\<close> has one attribute, \<^verbatim>\<open>symtab\<close>; the visit methods take it and
  return it updated.
\<close>

definition SymbolTableBuilder_init :: SymbolTable where
  "SymbolTableBuilder_init = SymbolTable_init"

definition visit_Var :: "string \<Rightarrow> SymbolTable \<Rightarrow> outcome" where
  "visit_Var var_name symtab =
     (case lookup var_name symtab of (var_symbol, symtab1) \<Rightarrow>
        if var_symbol = None then (Inl (NameError (Repr var_name)), symtab1)
        else (Inr (), symtab1))"

definition visit_VarDecl :: "string \<Rightarrow> string \<Rightarrow> SymbolTable \<Rightarrow> outcome" where
  "visit_VarDecl var_name type_name symtab =
     (case lookup type_name symtab of (type_symbol, symtab1) \<Rightarrow>
        let var_symbol = VarSymbol var_name type_symbol in
        case lookup var_name symtab1 of (found, symtab2) \<Rightarrow>
          if found = None then (Inl (NameError (DeclaredMoreThanOnce var_name)), symtab2)
          else (Inr (), define_symbol var_symbol symtab2))"

text \<open>
  Modelled from the spec: \<^verbatim>\<open>NodeVisitor.visit\<close>, imported from \<^verbatim>\<open>node_visitor\<close>, which
  dispatches on the class of the node to the method \<^verbatim>\<open>visit_<Class>\<close>. Each equation of
  \<open>visit\<close> is the dispatch to one method followed by the body of that method;
  \<open>visit_each\<close> is the loop \<^verbatim>\<open>for child in ...: self.visit(child)\<close> of \<^verbatim>\<open>visit_Block\<close> and
  \<^verbatim>\<open>visit_Compound\<close>. A raise inside a visit ends every enclosing visit.
\<close>

fun visit :: "node \<Rightarrow> SymbolTable \<Rightarrow> outcome"
  and visit_each :: "node list \<Rightarrow> SymbolTable \<Rightarrow> outcome" where
  "visit (Program block) symtab = visit block symtab"
| "visit (Block declarations compound_statement) symtab =
     (case visit_each declarations symtab of
        (Inl e, symtab1) \<Rightarrow> (Inl e, symtab1)
      | (Inr u, symtab1) \<Rightarrow> visit compound_statement symtab1)"
| "visit ProcedureDeclaration symtab = (Inr (), symtab)"
| "visit (Compound children) symtab = visit_each children symtab"
| "visit (Condition condition statement otherwise) symtab =
     (case visit condition symtab of
        (Inl e, symtab1) \<Rightarrow> (Inl e, symtab1)
      | (Inr u, symtab1) \<Rightarrow>
          (case visit statement symtab1 of
             (Inl e, symtab2) \<Rightarrow> (Inl e, symtab2)
           | (Inr u, symtab2) \<Rightarrow> visit otherwise symtab2))"
| "visit (ForLoop identifier boundary statement) symtab =
     (case visit identifier symtab of
        (Inl e, symtab1) \<Rightarrow> (Inl e, symtab1)
      | (Inr u, symtab1) \<Rightarrow>
          (case visit boundary symtab1 of
             (Inl e, symtab2) \<Rightarrow> (Inl e, symtab2)
           | (Inr u, symtab2) \<Rightarrow> visit statement symtab2))"
| "visit Writeln symtab = (Inr (), symtab)"
| "visit (Assign var_name right) symtab =
     (case lookup var_name symtab of (var_symbol, symtab1) \<Rightarrow>
        if var_symbol = None then (Inl (NameError (Repr var_name)), symtab1)
        else visit right symtab1)"
| "visit (VarDecl var_name type_name) symtab = visit_VarDecl var_name type_name symtab"
| "visit (Type v) symtab = (Inr (), symtab)"
| "visit (Var var_name) symtab = visit_Var var_name symtab"
| "visit (RelOp left right) symtab =
     (case visit left symtab of
        (Inl e, symtab1) \<Rightarrow> (Inl e, symtab1)
      | (Inr u, symtab1) \<Rightarrow> visit right symtab1)"
| "visit (BinOp left right) symtab =
     (case visit left symtab of
        (Inl e, symtab1) \<Rightarrow> (Inl e, symtab1)
      | (Inr u, symtab1) \<Rightarrow> visit right symtab1)"
| "visit (UnaryOp expr) symtab = visit expr symtab"
| "visit NoOp symtab = (Inr (), symtab)"
| "visit Num symtab = (Inr (), symtab)"
| "visit String symtab = (Inr (), symtab)"
| "visit Boolean symtab = (Inr (), symtab)"
| "visit_each [] symtab = (Inr (), symtab)"
| "visit_each (child # rest) symtab =
     (case visit child symtab of
        (Inl e, symtab1) \<Rightarrow> (Inl e, symtab1)
      | (Inr u, symtab1) \<Rightarrow> visit_each rest symtab1)"

text \<open>\<^verbatim>\<open>build\<close>: \<^verbatim>\<open>self.visit(tree)\<close>.\<close>

definition build :: "node \<Rightarrow> SymbolTable \<Rightarrow> outcome" where
  "build tree symtab = visit tree symtab"

text \<open>An analysis run: a new \<^verbatim>\<open>SymbolTableBuilder()\<close>, then \<^verbatim>\<open>build(tree)\<close>.\<close>

definition analyze :: "node \<Rightarrow> outcome" where
  "analyze tree = build tree SymbolTableBuilder_init"

section \<open>The traversal with a bound on its depth\<close>



section \<open>The names a traversal looks up as variables\<close>

text \<open>
  The variable names that the traversal of a node looks up, in the order of the traversal:
  the target of an assignment before its right-hand side, a \<^verbatim>\<open>Var\<close> node in any visited
  position (operand, condition, loop index, loop boundary). Declarations, \<^verbatim>\<open>writeln\<close> and
  procedure declarations contribute none.
\<close>

fun references :: "node \<Rightarrow> string list"
  and references_each :: "node list \<Rightarrow> string list" where
  "references (Program block) = references block"
| "references (Block declarations compound_statement) =
     references_each declarations @ references compound_statement"
| "references ProcedureDeclaration = []"
| "references (Compound children) = references_each children"
| "references (Condition condition statement otherwise) =
     references condition @ references statement @ references otherwise"
| "references (ForLoop identifier boundary statement) =
     references identifier @ references boundary @ references statement"
| "references Writeln = []"
| "references (Assign var_name right) = var_name # references right"
| "references (VarDecl var_name type_name) = []"
| "references (Type v) = []"
| "references (Var var_name) = [var_name]"
| "references (RelOp left right) = references left @ references right"
| "references (BinOp left right) = references left @ references right"
| "references (UnaryOp expr) = references expr"
| "references NoOp = []"
| "references Num = []"
| "references String = []"
| "references Boolean = []"
| "references_each [] = []"
| "references_each (child # rest) = references child @ references_each rest"

text \<open>A node with no variable declaration inside: a statement or an expression.\<close>

fun declaration_free :: "node \<Rightarrow> bool"
  and declaration_free_each :: "node list \<Rightarrow> bool" where
  "declaration_free (Program block) = declaration_free block"
| "declaration_free (Block declarations compound_statement) =
     (declaration_free_each declarations \<and> declaration_free compound_statement)"
| "declaration_free ProcedureDeclaration = True"
| "declaration_free (Compound children) = declaration_free_each children"
| "declaration_free (Condition condition statement otherwise) =
     (declaration_free condition \<and> declaration_free statement \<and> declaration_free otherwise)"
| "declaration_free (ForLoop identifier boundary statement) =
     (declaration_free identifier \<and> declaration_free boundary \<and> declaration_free statement)"
| "declaration_free Writeln = True"
| "declaration_free (Assign var_name right) = declaration_free right"
| "declaration_free (VarDecl var_name type_name) = False"
| "declaration_free (Type v) = True"
| "declaration_free (Var var_name) = True"
| "declaration_free (RelOp left right) = (declaration_free left \<and> declaration_free right)"
| "declaration_free (BinOp left right) = (declaration_free left \<and> declaration_free right)"
| "declaration_free (UnaryOp expr) = declaration_free expr"
| "declaration_free NoOp = True"
| "declaration_free Num = True"
| "declaration_free String = True"
| "declaration_free Boolean = True"
| "declaration_free_each [] = True"
| "declaration_free_each (child # rest) = (declaration_free child \<and> declaration_free_each rest)"

text \<open>
  The first name of a list that has no entry in the table, and the outcome that a list of
  looked-up names predicts: the error \<^verbatim>\<open>NameError(repr(name))\<close> for the first name without
  an entry, a normal return when every name has one; the table is the same in both cases.
\<close>

definition first_undeclared :: "string list \<Rightarrow> SymbolTable \<Rightarrow> string option" where
  "first_undeclared names symtab = List.find (\<lambda>name. fst (lookup name symtab) = None) names"

definition references_outcome :: "string list \<Rightarrow> SymbolTable \<Rightarrow> outcome" where
  "references_outcome names symtab =
     (case first_undeclared names symtab of
        None \<Rightarrow> (Inr (), symtab)
      | Some name \<Rightarrow> (Inl (NameError (Repr name)), symtab))"

section \<open>The actions of a traversal\<close>






section \<open>The fresh table\<close>

lemma SymbolTable_init_eq:
  "SymbolTable_init =
     \<lparr>symbols =
        [(''INTEGER'', BuiltinTypeSymbol ''INTEGER''),
         (''REAL'', BuiltinTypeSymbol ''REAL''),
         (''STRING'', BuiltinTypeSymbol ''STRING''),
         (''BOOLEAN'', BuiltinTypeSymbol ''BOOLEAN'')]\<rparr>"
  by (simp add: SymbolTable_init_def init_builtins_def BUILTINS_def define_symbol_def)

lemmas analyze_simps =
  analyze_def build_def SymbolTableBuilder_init_def visit_VarDecl_def visit_Var_def
  lookup_def define_symbol_def SymbolTable_init_eq

text \<open>
  Claim C5. A freshly constructed symbol table holds exactly the four entries
  INTEGER, REAL, STRING, BOOLEAN, in that order, each bound to the builtin-type symbol
  of its own name, and looking up each of the four names finds that symbol and leaves
  the table as it is.
\<close>

theorem fresh_table_builtins:
  "symbols SymbolTable_init =
     [(''INTEGER'', BuiltinTypeSymbol ''INTEGER''),
      (''REAL'', BuiltinTypeSymbol ''REAL''),
      (''STRING'', BuiltinTypeSymbol ''STRING''),
      (''BOOLEAN'', BuiltinTypeSymbol ''BOOLEAN'')]
   \<and> map fst (symbols SymbolTable_init) = BUILTINS
   \<and> lookup ''INTEGER'' SymbolTable_init = (Some (BuiltinTypeSymbol ''INTEGER''), SymbolTable_init)
   \<and> lookup ''REAL'' SymbolTable_init = (Some (BuiltinTypeSymbol ''REAL''), SymbolTable_init)
   \<and> lookup ''STRING'' SymbolTable_init = (Some (BuiltinTypeSymbol ''STRING''), SymbolTable_init)
   \<and> lookup ''BOOLEAN'' SymbolTable_init = (Some (BuiltinTypeSymbol ''BOOLEAN''), SymbolTable_init)"
  by (simp add: SymbolTable_init_eq lookup_def BUILTINS_def)

section \<open>Lookup and define\<close>

lemma fst_lookup: "fst (lookup name symtab) = map_of (symbols symtab) name"
  by (simp add: lookup_def)

lemma snd_lookup: "snd (lookup name symtab) = symtab"
  by (simp add: lookup_def)

lemma symbols_define_symbol:
  "symbols (define_symbol symbol symtab) =
     AList.update (symbol_name symbol) symbol (symbols symtab)"
  by (simp add: define_symbol_def)

text \<open>
  The keys of a dictionary are distinct. The fresh table has distinct keys and
  \<^verbatim>\<open>define\<close> keeps them distinct, so every table the analyzer reaches has them
  (\<open>visit_distinct\<close> below).
\<close>

lemma distinct_SymbolTable_init: "distinct (map fst (symbols SymbolTable_init))"
  by (simp add: SymbolTable_init_eq)

lemma distinct_define_symbol:
  "distinct (map fst (symbols symtab)) \<Longrightarrow>
   distinct (map fst (symbols (define_symbol symbol symtab)))"
  by (simp add: symbols_define_symbol distinct_update)

text \<open>
  Claim C6. For every symbol table (a dictionary: its keys are distinct) and every name,
  \<^verbatim>\<open>lookup\<close> returns the symbol of the entry with that name when the table has one, and
  the not-found value \<^verbatim>\<open>None\<close> exactly when no entry has that name; it has no error
  outcome, and the table after the call is the table before it.
\<close>

theorem lookup_spec:
  "distinct (map fst (symbols symtab)) \<Longrightarrow>
     snd (lookup name symtab) = symtab
   \<and> (\<forall>s. fst (lookup name symtab) = Some s \<longleftrightarrow> (name, s) \<in> set (symbols symtab))
   \<and> (fst (lookup name symtab) = None \<longleftrightarrow> name \<notin> fst ` set (symbols symtab))"
  by (simp add: fst_lookup snd_lookup map_of_eq_None_iff)

theorem lookup_spec_witness:
  "distinct (map fst (symbols SymbolTable_init))
   \<and> snd (lookup ''REAL'' SymbolTable_init) = SymbolTable_init
   \<and> fst (lookup ''REAL'' SymbolTable_init) = Some (BuiltinTypeSymbol ''REAL'')
   \<and> (''REAL'', BuiltinTypeSymbol ''REAL'') \<in> set (symbols SymbolTable_init)
   \<and> fst (lookup ''x'' SymbolTable_init) = None
   \<and> ''x'' \<notin> fst ` set (symbols SymbolTable_init)"
proof -
  have d: "distinct (map fst (symbols SymbolTable_init))"
    by (simp add: SymbolTable_init_eq)
  have m: "(''REAL'', BuiltinTypeSymbol ''REAL'') \<in> set (symbols SymbolTable_init)"
    by (simp add: SymbolTable_init_eq)
  have n: "''x'' \<notin> fst ` set (symbols SymbolTable_init)"
    by (simp add: SymbolTable_init_eq)
  from lookup_spec [OF d, of "''REAL''"] lookup_spec [OF d, of "''x''"] d m n
  show ?thesis by blast
qed

text \<open>
  Claim C7. Lookup is idempotent: two consecutive calls of \<^verbatim>\<open>lookup\<close> for the same name
  return the same result and leave the table as it was, and so does a call after any
  number \<open>k\<close> of earlier calls for that name.
\<close>

theorem lookup_idempotent:
  "(case lookup name symtab of (r1, symtab1) \<Rightarrow>
      case lookup name symtab1 of (r2, symtab2) \<Rightarrow> r1 = r2 \<and> symtab2 = symtab)
   \<and> ((\<lambda>t. snd (lookup name t)) ^^ k) symtab = symtab
   \<and> fst (lookup name (((\<lambda>t. snd (lookup name t)) ^^ k) symtab)) = fst (lookup name symtab)"
proof -
  have "((\<lambda>t. snd (lookup name t)) ^^ k) symtab = symtab"
    by (induction k) (simp_all add: snd_lookup)
  then show ?thesis by (simp add: lookup_def)
qed

section \<open>Variable declarations\<close>

text \<open>
  The guard of \<^verbatim>\<open>visit_VarDecl\<close> is \<^verbatim>\<open>if self.symtab.lookup(var_name) is None: raise\<close>:
  a name without an entry is rejected, a name with an entry is defined again.
\<close>

lemma visit_VarDecl_absent:
  "fst (lookup var_name symtab) = None \<Longrightarrow>
   visit_VarDecl var_name type_name symtab =
     (Inl (NameError (DeclaredMoreThanOnce var_name)), symtab)"
  by (simp add: visit_VarDecl_def lookup_def)

lemma visit_VarDecl_present:
  "fst (lookup var_name symtab) \<noteq> None \<Longrightarrow>
   visit_VarDecl var_name type_name symtab =
     (Inr (), define_symbol (VarSymbol var_name (fst (lookup type_name symtab))) symtab)"
  by (simp add: visit_VarDecl_def lookup_def)

text \<open>The traversal keeps the keys of the table distinct.\<close>

lemma visit_VarDecl_distinct:
  "distinct (map fst (symbols symtab)) \<Longrightarrow>
   distinct (map fst (symbols (snd (visit_VarDecl var_name type_name symtab))))"
  by (cases "fst (lookup var_name symtab) = None")
     (simp_all add: visit_VarDecl_absent visit_VarDecl_present distinct_define_symbol)

lemma visit_distinct:
  "distinct (map fst (symbols symtab)) \<Longrightarrow>
   distinct (map fst (symbols (snd (visit n symtab))))"
  "distinct (map fst (symbols symtab)) \<Longrightarrow>
   distinct (map fst (symbols (snd (visit_each ns symtab))))"
proof (induction n symtab and ns symtab rule: visit_visit_each.induct)
  case (2 declarations compound_statement symtab)
  then show ?case by (auto split: prod.splits sum.splits)
next
  case (5 condition statement otherwise symtab)
  then show ?case by (auto split: prod.splits sum.splits)
next
  case (6 index boundary statement symtab)
  then show ?case by (auto split: prod.splits sum.splits)
next
  case (8 var_name right symtab)
  then show ?case by (auto simp: lookup_def split: prod.splits sum.splits)
next
  case (12 left right symtab)
  then show ?case by (auto split: prod.splits sum.splits)
next
  case (13 left right symtab)
  then show ?case by (auto split: prod.splits sum.splits)
next
  case (20 child rest symtab)
  then show ?case by (auto split: prod.splits sum.splits)
qed (simp_all add: visit_VarDecl_distinct visit_Var_def lookup_def)

text \<open>
  Claim C9. Visiting a variable declaration is atomic on failure: whenever
  \<^verbatim>\<open>visit_VarDecl\<close> raises, the symbol table after the raise is the table as it was before
  the declaration was visited.
\<close>

theorem visit_VarDecl_atomic:
  "fst (visit_VarDecl var_name type_name symtab) = Inl e \<Longrightarrow>
   snd (visit_VarDecl var_name type_name symtab) = symtab"
  by (cases "fst (lookup var_name symtab) = None")
     (simp_all add: visit_VarDecl_absent visit_VarDecl_present)

theorem visit_VarDecl_atomic_witness:
  "fst (visit_VarDecl ''x'' ''INTEGER'' SymbolTable_init) =
     Inl (NameError (DeclaredMoreThanOnce ''x''))
   \<and> snd (visit_VarDecl ''x'' ''INTEGER'' SymbolTable_init) = SymbolTable_init"
proof -
  have h: "fst (visit_VarDecl ''x'' ''INTEGER'' SymbolTable_init) =
      Inl (NameError (DeclaredMoreThanOnce ''x''))"
    by (simp add: visit_VarDecl_def lookup_def SymbolTable_init_eq)
  from visit_VarDecl_atomic [OF h] h show ?thesis by simp
qed

text \<open>
  Claim C10. A variable declaration whose name already has an entry in the table, the
  builtin type names included, does not raise: it replaces the entry, in place, with the
  new variable symbol, whose type is the result of looking up the declared type name.
\<close>

theorem visit_VarDecl_overwrites:
  "fst (lookup var_name symtab) \<noteq> None \<Longrightarrow>
     visit (VarDecl var_name type_name) symtab =
       (Inr (), define_symbol (VarSymbol var_name (fst (lookup type_name symtab))) symtab)
   \<and> fst (lookup var_name (snd (visit (VarDecl var_name type_name) symtab))) =
       Some (VarSymbol var_name (fst (lookup type_name symtab)))
   \<and> map fst (symbols (snd (visit (VarDecl var_name type_name) symtab))) =
       map fst (symbols symtab)"
  by (simp add: visit_VarDecl_present fst_lookup symbols_define_symbol update_conv
      update_keys map_of_eq_None_iff)

theorem visit_VarDecl_overwrites_witness:
  "fst (lookup ''INTEGER'' SymbolTable_init) = Some (BuiltinTypeSymbol ''INTEGER'')
   \<and> fst (visit (VarDecl ''INTEGER'' ''REAL'') SymbolTable_init) = Inr ()
   \<and> fst (lookup ''INTEGER'' (snd (visit (VarDecl ''INTEGER'' ''REAL'') SymbolTable_init))) =
       Some (VarSymbol ''INTEGER'' (Some (BuiltinTypeSymbol ''REAL'')))"
proof -
  have v: "fst (lookup ''INTEGER'' SymbolTable_init) = Some (BuiltinTypeSymbol ''INTEGER'')"
    by (simp add: lookup_def SymbolTable_init_eq)
  then have h: "fst (lookup ''INTEGER'' SymbolTable_init) \<noteq> None"
    by simp
  have t: "fst (lookup ''REAL'' SymbolTable_init) = Some (BuiltinTypeSymbol ''REAL'')"
    by (simp add: lookup_def SymbolTable_init_eq)
  note w = visit_VarDecl_overwrites [OF h, of "''REAL''"]
  from w [THEN conjunct1]
  have r: "fst (visit (VarDecl ''INTEGER'' ''REAL'') SymbolTable_init) = Inr ()"
    by simp
  from w [THEN conjunct2, THEN conjunct1] t v r show ?thesis
    by simp
qed

text \<open>
  Claim C1. A program with distinct declarations of builtin types whose body uses only
  declared variables should be accepted, with one variable symbol per declaration in the
  table. On the program \<^verbatim>\<open>x: INTEGER; y: REAL; x := y; if x then writeln(x) else writeln(y)\<close>
  the analyzer raises at the first declaration, with the message that \<^verbatim>\<open>x\<close> is declared
  more than once, and the table holds the four builtins only.
\<close>

theorem fresh_declaration_rejected:
  "analyze (Program (Block [VarDecl ''x'' ''INTEGER'', VarDecl ''y'' ''REAL'']
      (Compound [Assign ''x'' (Var ''y''), Condition (Var ''x'') Writeln Writeln])))
   = (Inl (NameError (DeclaredMoreThanOnce ''x'')), SymbolTable_init)"
  by (simp add: analyze_simps)

text \<open>
  Claim C2. A program that declares the same name twice should fail with the
  duplicate-declaration error naming that name, raised at the declaration that finds the
  name in the table. On \<^verbatim>\<open>y: INTEGER; x: INTEGER; x: REAL\<close> the analyzer raises at the
  first declaration, that of \<^verbatim>\<open>y\<close>, which is declared once and has no entry; the error
  names \<^verbatim>\<open>y\<close>, not the duplicated \<^verbatim>\<open>x\<close>.
\<close>

theorem duplicate_error_names_first_declaration:
  "fst (lookup ''y'' SymbolTableBuilder_init) = None
   \<and> analyze (Program (Block
        [VarDecl ''y'' ''INTEGER'', VarDecl ''x'' ''INTEGER'', VarDecl ''x'' ''REAL'']
        (Compound [])))
     = (Inl (NameError (DeclaredMoreThanOnce ''y'')), SymbolTable_init)"
  by (simp add: analyze_simps)

text \<open>
  The analyzer has no check of the type symbol: a declaration of a type name without an
  entry, for a variable name that has one, returns normally and stores a variable symbol
  whose type is \<^verbatim>\<open>None\<close>.
\<close>

theorem unknown_type_counterexample:
  "fst (lookup ''FOO'' SymbolTable_init) = None
   \<and> analyze (Program (Block [VarDecl ''INTEGER'' ''FOO''] (Compound [])))
     = (Inr (),
        \<lparr>symbols =
           [(''INTEGER'', VarSymbol ''INTEGER'' None),
            (''REAL'', BuiltinTypeSymbol ''REAL''),
            (''STRING'', BuiltinTypeSymbol ''STRING''),
            (''BOOLEAN'', BuiltinTypeSymbol ''BOOLEAN'')]\<rparr>)"
  by (simp add: analyze_simps)

text \<open>
  Claim C3, as amended. A variable declaration whose type name has no entry in the table
  is not rejected for that: whether the declaration raises does not depend on its type
  name, and when it returns normally the variable symbol it has defined has the
  not-found value \<^verbatim>\<open>None\<close> as its type.
\<close>

theorem unknown_type_not_checked:
  "fst (lookup type_name symtab) = None \<Longrightarrow>
     fst (visit (VarDecl var_name type_name) symtab) =
       fst (visit (VarDecl var_name other_type) symtab)
   \<and> (fst (visit (VarDecl var_name type_name) symtab) = Inr () \<longrightarrow>
        snd (visit (VarDecl var_name type_name) symtab) =
          define_symbol (VarSymbol var_name None) symtab)"
  by (cases "fst (lookup var_name symtab) = None")
     (simp_all add: visit_VarDecl_absent visit_VarDecl_present)

theorem unknown_type_not_checked_witness:
  "fst (lookup ''FOO'' SymbolTable_init) = None
   \<and> fst (visit (VarDecl ''INTEGER'' ''FOO'') SymbolTable_init) =
       fst (visit (VarDecl ''INTEGER'' ''REAL'') SymbolTable_init)
   \<and> fst (visit (VarDecl ''INTEGER'' ''FOO'') SymbolTable_init) = Inr ()
   \<and> snd (visit (VarDecl ''INTEGER'' ''FOO'') SymbolTable_init) =
       define_symbol (VarSymbol ''INTEGER'' None) SymbolTable_init"
proof -
  have h: "fst (lookup ''FOO'' SymbolTable_init) = None"
    by (simp add: lookup_def SymbolTable_init_eq)
  have r: "fst (visit (VarDecl ''INTEGER'' ''FOO'') SymbolTable_init) = Inr ()"
    by (simp add: visit_VarDecl_def lookup_def SymbolTable_init_eq)
  from unknown_type_not_checked [OF h, of "''INTEGER''" "''REAL''"] h r
  show ?thesis by simp
qed

section \<open>References to variables\<close>

lemma find_append:
  "List.find P (xs @ ys) = (case List.find P xs of None \<Rightarrow> List.find P ys | Some x \<Rightarrow> Some x)"
  by (induction xs) simp_all

lemma references_outcome_Nil: "references_outcome [] symtab = (Inr (), symtab)"
  by (simp add: references_outcome_def first_undeclared_def)

lemma references_outcome_Cons:
  "references_outcome (x # xs) symtab =
     (if fst (lookup x symtab) = None then (Inl (NameError (Repr x)), symtab)
      else references_outcome xs symtab)"
  by (simp add: references_outcome_def first_undeclared_def)

lemma references_outcome_append:
  "references_outcome (xs @ ys) symtab =
     (case references_outcome xs symtab of
        (Inl e, symtab1) \<Rightarrow> (Inl e, symtab1)
      | (Inr u, symtab1) \<Rightarrow> references_outcome ys symtab1)"
  by (simp add: references_outcome_def first_undeclared_def find_append split: option.splits)

text \<open>
  A traversal without declarations checks the names it looks up one after the other and
  stops at the first that has no entry; it never changes the table.
\<close>

lemma visit_references:
  "declaration_free n \<Longrightarrow> visit n symtab = references_outcome (references n) symtab"
  "declaration_free_each ns \<Longrightarrow>
   visit_each ns symtab = references_outcome (references_each ns) symtab"
proof (induction n symtab and ns symtab rule: visit_visit_each.induct)
  case (2 declarations compound_statement symtab)
  then show ?case
    by (auto simp: references_outcome_append split: prod.splits sum.splits)
next
  case (5 condition statement otherwise symtab)
  then show ?case
    by (auto simp: references_outcome_append split: prod.splits sum.splits)
next
  case (6 index boundary statement symtab)
  then show ?case
    by (auto simp: references_outcome_append split: prod.splits sum.splits)
next
  case (8 var_name right symtab)
  then show ?case
    by (auto simp: references_outcome_Cons lookup_def split: prod.splits sum.splits)
next
  case (12 left right symtab)
  then show ?case
    by (auto simp: references_outcome_append split: prod.splits sum.splits)
next
  case (13 left right symtab)
  then show ?case
    by (auto simp: references_outcome_append split: prod.splits sum.splits)
next
  case (20 child rest symtab)
  then show ?case
    by (auto simp: references_outcome_append split: prod.splits sum.splits)
qed (simp_all add: references_outcome_Nil references_outcome_Cons visit_Var_def lookup_def)

text \<open>
  Two programs without declarations. In the first the assignment target \<^verbatim>\<open>INTEGER\<close> was
  never declared, yet the analysis succeeds, since the builtin type symbol is an entry of
  that name. In the second both \<^verbatim>\<open>a\<close> and \<^verbatim>\<open>b\<close> are referenced and undeclared; the analysis
  stops at \<^verbatim>\<open>a\<close> and the error does not name \<^verbatim>\<open>b\<close>.
\<close>

theorem undeclared_reference_counterexample:
  "analyze (Program (Block [] (Compound [Assign ''INTEGER'' Num]))) = (Inr (), SymbolTable_init)
   \<and> ''b'' \<in> set (references (Program (Block [] (Compound [Assign ''a'' (Var ''b'')]))))
   \<and> fst (lookup ''b'' SymbolTable_init) = None
   \<and> analyze (Program (Block [] (Compound [Assign ''a'' (Var ''b'')])))
       = (Inl (NameError (Repr ''a'')), SymbolTable_init)"
  by (simp add: analyze_simps)

text \<open>
  Claim C4, as amended. For every node without a variable declaration inside (a
  statement or an expression) and every table: when some name that the traversal looks up
  as a variable (an assignment target, a variable in an operand, a condition, a for-loop
  index or boundary) has no entry in the table, the visit fails with the undeclared-name
  error naming the first such name in traversal order; otherwise it returns normally. The
  table is unchanged in both cases. For a program whose declarations have been processed
  without error, the body is checked in this way against the table the declarations left.
\<close>

theorem undeclared_reference_fails:
  "(declaration_free n \<longrightarrow>
      visit n symtab =
        (case first_undeclared (references n) symtab of
           None \<Rightarrow> (Inr (), symtab)
         | Some name \<Rightarrow> (Inl (NameError (Repr name)), symtab)))
   \<and> (declaration_free body \<and> visit_each declarations symtab = (Inr (), symtab1) \<longrightarrow>
      visit (Program (Block declarations body)) symtab =
        (case first_undeclared (references body) symtab1 of
           None \<Rightarrow> (Inr (), symtab1)
         | Some name \<Rightarrow> (Inl (NameError (Repr name)), symtab1)))"
  by (simp add: visit_references(1) references_outcome_def)

theorem undeclared_reference_fails_witness:
  "declaration_free (Compound [Assign ''z'' Num])
   \<and> first_undeclared (references (Compound [Assign ''z'' Num])) SymbolTable_init = Some ''z''
   \<and> visit (Compound [Assign ''z'' Num]) SymbolTable_init
       = (Inl (NameError (Repr ''z'')), SymbolTable_init)
   \<and> visit_each [] SymbolTable_init = (Inr (), SymbolTable_init)
   \<and> visit (Program (Block [] (Compound [Assign ''z'' Num]))) SymbolTable_init
       = (Inl (NameError (Repr ''z'')), SymbolTable_init)"
proof -
  have h: "declaration_free (Compound [Assign ''z'' Num])"
    by simp
  have d: "visit_each [] SymbolTable_init = (Inr (), SymbolTable_init)"
    by simp
  have f: "first_undeclared (references (Compound [Assign ''z'' Num])) SymbolTable_init
      = Some ''z''"
    by (simp add: first_undeclared_def lookup_def SymbolTable_init_eq)
  note w = undeclared_reference_fails
    [of "Compound [Assign ''z'' Num]" SymbolTable_init "Compound [Assign ''z'' Num]" "[]"
      SymbolTable_init]
  from w [THEN conjunct1] h f
  have a: "visit (Compound [Assign ''z'' Num]) SymbolTable_init
       = (Inl (NameError (Repr ''z'')), SymbolTable_init)"
    by simp
  from w [THEN conjunct2] h d f
  have b: "visit (Program (Block [] (Compound [Assign ''z'' Num]))) SymbolTable_init
       = (Inl (NameError (Repr ''z'')), SymbolTable_init)"
    by simp
  from h f a d b show ?thesis by blast
qed

section \<open>Termination and the first error\<close>












end
